theory Spec2Isabelle
  imports Main "HOL-Library.Word" "HOL-Library.Multiset"
begin

section \<open>Strings\<close>

text \<open>
  A JavaScript string is a sequence of 16-bit code units. Literals of the source are
  written with \<open>js\<close> for their ASCII stretches and with the code unit itself
  elsewhere (the source is read as UTF-8; all its literals lie in the basic plane).
\<close>

type_synonym cu = "16 word"
type_synonym jsstring = "cu list"

definition ch :: "char \<Rightarrow> cu" where
  "ch c = of_nat (of_char c)"

definition js :: "string \<Rightarrow> jsstring" where
  "js s = map ch s"

definition backslash :: cu where
  "backslash = 0x5C"

text \<open>
  \<open>String.prototype.trim\<close> strips the code units of WhiteSpace and LineTerminator
  from both ends.
\<close>

definition isWhiteSpace :: "cu \<Rightarrow> bool" where
  "isWhiteSpace c \<longleftrightarrow>
     c = 0x09 \<or> c = 0x0A \<or> c = 0x0B \<or> c = 0x0C \<or> c = 0x0D \<or> c = 0x20 \<or> c = 0xA0 \<or>
     c = 0x1680 \<or> (0x2000 \<le> c \<and> c \<le> 0x200A) \<or> c = 0x2028 \<or> c = 0x2029 \<or>
     c = 0x202F \<or> c = 0x205F \<or> c = 0x3000 \<or> c = 0xFEFF"

definition trim :: "jsstring \<Rightarrow> jsstring" where
  "trim s = rev (dropWhile isWhiteSpace (rev (dropWhile isWhiteSpace s)))"

text \<open>\<open>Array.prototype.join\<close> on strings.\<close>

fun join :: "jsstring \<Rightarrow> jsstring list \<Rightarrow> jsstring" where
  "join sep [] = []"
| "join sep [x] = x"
| "join sep (x # y # ys) = x @ sep @ join sep (y # ys)"

text \<open>
  Number to string, for the integers the templates render (an array index plus one,
  an image count): decimal digits, with a minus sign below zero.
\<close>

fun digits :: "nat \<Rightarrow> jsstring" where
  "digits n = (if n < 10 then [48 + of_nat n] else digits (n div 10) @ [48 + of_nat (n mod 10)])"

declare digits.simps [simp del]

definition numberToString :: "int \<Rightarrow> jsstring" where
  "numberToString i = (if i < 0 then ch CHR ''-'' # digits (nat (- i)) else digits (nat i))"

section \<open>escapeRegex\<close>

text \<open>
  \<^verbatim>\<open>const escapeRegex = (value = '') => value.replace(/[.*+?^${}()|[\]\\]/g, '\\$&');\<close>
  Every code unit of the class is replaced by a backslash followed by itself.
\<close>

definition escapeSet :: "cu list" where
  "escapeSet = js ''.*+?^${}()|[]'' @ [backslash]"

definition escapeRegex :: "jsstring \<Rightarrow> jsstring" where
  "escapeRegex v = concat (map (\<lambda>c. if c \<in> set escapeSet then [backslash, c] else [c]) v)"

section \<open>The pattern language of RegExp\<close>

text \<open>
  \<^verbatim>\<open>new RegExp(pattern, 'i')\<close> reads a pattern and raises SyntaxError on an ill-formed
  one; the store then searches the title and the content for it. Both are library code.
  The reader below follows the ECMAScript pattern grammar (with the web-compatibility
  rules for a lone brace or closing bracket) for characters, identity and class escapes,
  the dot, anchors, the quantifiers, groups, alternation and character classes. At a
  construct it gives no meaning to (backreferences, lookaround, word boundaries,
  hexadecimal, control-letter and octal escapes) it stops with \<open>NotModelled\<close>, which
  says nothing about the pattern. The limits an engine puts on the size of a pattern are
  left out.
\<close>

datatype regex =
    RNever
  | REmpty
  | RChar cu
  | RAny
  | RSet bool "(cu \<times> cu) list"
  | RBol
  | REol
  | RSeq regex regex
  | RAlt regex regex
  | RStar regex

datatype reerror = SyntaxError | NotModelled

datatype lastTerm = NoTerm | Quantifiable | Quantified | QuantifiedLazy

datatype quantifier = QStar | QPlus | QOpt | QRange nat "nat option"

type_synonym frame = "regex list \<times> regex list"

definition isSyntaxCharacter :: "cu \<Rightarrow> bool" where
  "isSyntaxCharacter c \<longleftrightarrow> c \<in> set (js ''^$.*+?()[]{}|'') \<or> c = backslash"

definition isDigit :: "cu \<Rightarrow> bool" where
  "isDigit c \<longleftrightarrow> 0x30 \<le> c \<and> c \<le> 0x39"

definition decimalValue :: "jsstring \<Rightarrow> nat" where
  "decimalValue ds = foldl (\<lambda>a d. 10 * a + unat (d - 0x30)) 0 ds"

definition digitRanges :: "(cu \<times> cu) list" where
  "digitRanges = [(0x30, 0x39)]"

definition wordRanges :: "(cu \<times> cu) list" where
  "wordRanges = [(0x30, 0x39), (0x41, 0x5A), (0x5F, 0x5F), (0x61, 0x7A)]"

definition spaceRanges :: "(cu \<times> cu) list" where
  "spaceRanges = [(0x09, 0x0D), (0x20, 0x20), (0xA0, 0xA0), (0x1680, 0x1680), (0x2000, 0x200A),
     (0x2028, 0x2029), (0x202F, 0x202F), (0x205F, 0x205F), (0x3000, 0x3000), (0xFEFF, 0xFEFF)]"

text \<open>The complements, for the escapes in capital letters.\<close>

definition nonDigitRanges :: "(cu \<times> cu) list" where
  "nonDigitRanges = [(0x00, 0x2F), (0x3A, 0xFFFF)]"

definition nonWordRanges :: "(cu \<times> cu) list" where
  "nonWordRanges = [(0x00, 0x2F), (0x3A, 0x40), (0x5B, 0x5E), (0x60, 0x60), (0x7B, 0xFFFF)]"

definition nonSpaceRanges :: "(cu \<times> cu) list" where
  "nonSpaceRanges = [(0x00, 0x08), (0x0E, 0x1F), (0x21, 0x9F), (0xA1, 0x167F), (0x1681, 0x1FFF),
     (0x200B, 0x2027), (0x202A, 0x202E), (0x2030, 0x205E), (0x2060, 0x2FFF), (0x3001, 0xFEFE),
     (0xFF00, 0xFFFF)]"

definition controlEscape :: "cu \<Rightarrow> cu option" where
  "controlEscape d =
     (if d = ch CHR ''f'' then Some 0x0C
      else if d = ch CHR ''n'' then Some 0x0A
      else if d = ch CHR ''r'' then Some 0x0D
      else if d = ch CHR ''t'' then Some 0x09
      else if d = ch CHR ''v'' then Some 0x0B
      else None)"

text \<open>The term a backslash and the code unit \<open>d\<close> stand for outside a class; \<open>ds\<close> follows.\<close>

definition atomEscape :: "cu \<Rightarrow> jsstring \<Rightarrow> reerror + regex" where
  "atomEscape d ds =
     (if d = ch CHR ''d'' then Inr (RSet False digitRanges)
      else if d = ch CHR ''D'' then Inr (RSet False nonDigitRanges)
      else if d = ch CHR ''w'' then Inr (RSet False wordRanges)
      else if d = ch CHR ''W'' then Inr (RSet False nonWordRanges)
      else if d = ch CHR ''s'' then Inr (RSet False spaceRanges)
      else if d = ch CHR ''S'' then Inr (RSet False nonSpaceRanges)
      else if controlEscape d \<noteq> None then Inr (RChar (the (controlEscape d)))
      else if d = ch CHR ''0'' \<and> \<not> (case ds of [] \<Rightarrow> False | e # _ \<Rightarrow> isDigit e) then Inr (RChar 0)
      else if isDigit d \<or> d \<in> set (js ''bBcxuk'') then Inl NotModelled
      else Inr (RChar d))"

text \<open>The members a backslash and \<open>d\<close> stand for inside a class.\<close>

definition classEscape :: "cu \<Rightarrow> reerror + (cu \<times> cu) list" where
  "classEscape d =
     (if d = ch CHR ''d'' then Inr digitRanges
      else if d = ch CHR ''D'' then Inr nonDigitRanges
      else if d = ch CHR ''w'' then Inr wordRanges
      else if d = ch CHR ''W'' then Inr nonWordRanges
      else if d = ch CHR ''s'' then Inr spaceRanges
      else if d = ch CHR ''S'' then Inr nonSpaceRanges
      else if controlEscape d \<noteq> None then Inr [(the (controlEscape d), the (controlEscape d))]
      else if d = ch CHR ''b'' then Inr [(0x08, 0x08)]
      else if isDigit d \<or> d \<in> set (js ''cxuk'') then Inl NotModelled
      else Inr [(d, d)])"

text \<open>
  The members of a class up to its closing bracket, and the number of code units read
  (the bracket included). A range has plain characters at both ends here; one with an
  escape at either end is not given a meaning.
\<close>

fun classRanges :: "jsstring \<Rightarrow> reerror + ((cu \<times> cu) list \<times> nat)" where
  "classRanges [] = Inl SyntaxError"
| "classRanges (c # cs) =
     (if c = ch CHR '']'' then Inr ([], 1)
      else if c = backslash then
        (case cs of
           [] \<Rightarrow> Inl SyntaxError
         | d # ds \<Rightarrow>
             if take 1 ds = [ch CHR ''-''] \<and> take 1 (drop 1 ds) \<notin> {[], [ch CHR '']'']}
             then Inl NotModelled
             else (case classEscape d of
                     Inl e \<Rightarrow> Inl e
                   | Inr rs \<Rightarrow> (case classRanges ds of
                                 Inl e \<Rightarrow> Inl e
                               | Inr (rs', n) \<Rightarrow> Inr (rs @ rs', n + 2))))
      else
        (case cs of
           m # hi # rest \<Rightarrow>
             if m = ch CHR ''-'' \<and> hi \<noteq> ch CHR '']'' then
               (if hi = backslash then Inl NotModelled
                else if hi < c then Inl SyntaxError
                else (case classRanges rest of
                        Inl e \<Rightarrow> Inl e
                      | Inr (rs', n) \<Rightarrow> Inr ((c, hi) # rs', n + 3)))
             else (case classRanges cs of
                     Inl e \<Rightarrow> Inl e
                   | Inr (rs', n) \<Rightarrow> Inr ((c, c) # rs', n + 1))
         | _ \<Rightarrow> (case classRanges cs of
                  Inl e \<Rightarrow> Inl e
                | Inr (rs', n) \<Rightarrow> Inr ((c, c) # rs', n + 1))))"

text \<open>What follows an opening bracket: the class and the number of code units read.\<close>

definition characterClass :: "jsstring \<Rightarrow> reerror + (regex \<times> nat)" where
  "characterClass cs =
     (let neg = (take 1 cs = [ch CHR ''^''])
      in case classRanges (if neg then drop 1 cs else cs) of
           Inl e \<Rightarrow> Inl e
         | Inr (rs, n) \<Rightarrow> Inr (RSet neg rs, if neg then n + 1 else n))"

text \<open>
  What follows an opening brace, when it is a quantifier: the bounds and the number of
  code units read (the closing brace included).
\<close>

definition braceQuantifier :: "jsstring \<Rightarrow> (nat \<times> nat option \<times> nat) option" where
  "braceQuantifier cs =
     (let ds = takeWhile isDigit cs; r1 = dropWhile isDigit cs
      in if ds = [] then None
         else (case r1 of
                 [] \<Rightarrow> None
               | x # r2 \<Rightarrow>
                   if x = ch CHR ''}'' then Some (decimalValue ds, Some (decimalValue ds), length ds + 1)
                   else if x = ch CHR '','' then
                     (let es = takeWhile isDigit r2
                      in case dropWhile isDigit r2 of
                           [] \<Rightarrow> None
                         | y # _ \<Rightarrow>
                             if y = ch CHR ''}''
                             then Some (decimalValue ds,
                                        if es = [] then None else Some (decimalValue es),
                                        length ds + length es + 2)
                             else None)
                   else None))"

fun power :: "nat \<Rightarrow> regex \<Rightarrow> regex" where
  "power 0 r = REmpty"
| "power (Suc n) r = RSeq r (power n r)"

fun upTo :: "nat \<Rightarrow> regex \<Rightarrow> regex" where
  "upTo 0 r = REmpty"
| "upTo (Suc n) r = RAlt (RSeq r (upTo n r)) REmpty"

fun quantify :: "quantifier \<Rightarrow> regex \<Rightarrow> regex" where
  "quantify QStar r = RStar r"
| "quantify QPlus r = RSeq r (RStar r)"
| "quantify QOpt r = RAlt r REmpty"
| "quantify (QRange lo None) r = RSeq (power lo r) (RStar r)"
| "quantify (QRange lo (Some hi)) r = RSeq (power lo r) (upTo (hi - lo) r)"

definition quantifierOf :: "cu \<Rightarrow> quantifier" where
  "quantifierOf c = (if c = ch CHR ''*'' then QStar else if c = ch CHR ''+'' then QPlus else QOpt)"

fun mkSeq :: "regex list \<Rightarrow> regex" where
  "mkSeq [] = REmpty"
| "mkSeq (t # ts) = RSeq t (mkSeq ts)"

fun mkAlt :: "regex list \<Rightarrow> regex" where
  "mkAlt [] = RNever"
| "mkAlt [a] = a"
| "mkAlt (a # b # bs) = RAlt a (mkAlt (b # bs))"

text \<open>
  A frame holds the finished alternatives of the disjunction being read and the terms
  of the current alternative, newest first.
\<close>

definition closeFrame :: "frame \<Rightarrow> regex" where
  "closeFrame fr = mkAlt (fst fr @ [mkSeq (rev (snd fr))])"

fun parsePattern :: "frame list \<Rightarrow> frame \<Rightarrow> lastTerm \<Rightarrow> jsstring \<Rightarrow> reerror + regex" where
  "parsePattern stack fr lt [] = (if stack = [] then Inr (closeFrame fr) else Inl SyntaxError)"
| "parsePattern stack (alts, ts) lt (c # cs) =
     (if c = backslash then
        (case cs of
           [] \<Rightarrow> Inl SyntaxError
         | d # ds \<Rightarrow> (case atomEscape d ds of
                       Inl e \<Rightarrow> Inl e
                     | Inr t \<Rightarrow> parsePattern stack (alts, t # ts) Quantifiable ds))
      else if c = ch CHR ''('' then
        (if take 1 cs = [ch CHR ''?''] then
           (if take 1 (drop 1 cs) = [ch CHR '':'']
            then parsePattern ((alts, ts) # stack) ([], []) NoTerm (drop 2 cs)
            else if take 1 (drop 1 cs) \<in> {[ch CHR ''=''], [ch CHR ''!''], [ch CHR ''<'']}
            then Inl NotModelled
            else Inl SyntaxError)
         else parsePattern ((alts, ts) # stack) ([], []) NoTerm cs)
      else if c = ch CHR '')'' then
        (case stack of
           [] \<Rightarrow> Inl SyntaxError
         | (palts, pts) # st \<Rightarrow> parsePattern st (palts, closeFrame (alts, ts) # pts) Quantifiable cs)
      else if c = ch CHR ''|'' then parsePattern stack (alts @ [mkSeq (rev ts)], []) NoTerm cs
      else if c = ch CHR ''^'' then parsePattern stack (alts, RBol # ts) NoTerm cs
      else if c = ch CHR ''$'' then parsePattern stack (alts, REol # ts) NoTerm cs
      else if c = ch CHR ''.'' then parsePattern stack (alts, RAny # ts) Quantifiable cs
      else if c = ch CHR ''*'' \<or> c = ch CHR ''+'' \<or> c = ch CHR ''?'' then
        (case (lt, ts) of
           (Quantifiable, t # ts') \<Rightarrow>
             parsePattern stack (alts, quantify (quantifierOf c) t # ts') Quantified cs
         | (Quantified, _) \<Rightarrow>
             if c = ch CHR ''?'' then parsePattern stack (alts, ts) QuantifiedLazy cs
             else Inl SyntaxError
         | _ \<Rightarrow> Inl SyntaxError)
      else if c = ch CHR ''{'' then
        (case braceQuantifier cs of
           None \<Rightarrow> parsePattern stack (alts, RChar c # ts) Quantifiable cs
         | Some (lo, hi, n) \<Rightarrow>
             (case (lt, ts) of
                (Quantifiable, t # ts') \<Rightarrow>
                  if (case hi of None \<Rightarrow> False | Some h \<Rightarrow> h < lo) then Inl SyntaxError
                  else parsePattern stack (alts, quantify (QRange lo hi) t # ts') Quantified (drop n cs)
              | _ \<Rightarrow> Inl SyntaxError))
      else if c = ch CHR ''['' then
        (case characterClass cs of
           Inl e \<Rightarrow> Inl e
         | Inr (t, n) \<Rightarrow> parsePattern stack (alts, t # ts) Quantifiable (drop n cs))
      else parsePattern stack (alts, RChar c # ts) Quantifiable cs)"

text \<open>
  A RegExp object: the pattern it was built from and what the reader made of it. The
  property \<open>source\<close> of the object differs from the pattern only in writing a slash and
  a line terminator as an escape, so it holds U+0000 exactly when the pattern does.
\<close>

record regExp =
  source :: jsstring
  program :: regex

text \<open>\<^verbatim>\<open>new RegExp(pattern, 'i')\<close>: the object built, or the error raised.\<close>

definition newRegExp :: "jsstring \<Rightarrow> reerror + regExp" where
  "newRegExp pattern =
     (case parsePattern [] ([], []) NoTerm pattern of
        Inl e \<Rightarrow> Inl e
      | Inr r \<Rightarrow> Inr \<lparr>source = pattern, program = r\<rparr>)"

section \<open>Searching a text for a pattern\<close>

text \<open>
  With the flag \<open>i\<close> two code units match when their canonical forms agree. The table
  of canonical forms (simple upper-casing) is the library's; it is the parameter
  \<open>canon\<close> throughout.
\<close>

definition isLineTerminator :: "cu \<Rightarrow> bool" where
  "isLineTerminator c \<longleftrightarrow> c = 0x0A \<or> c = 0x0D \<or> c = 0x2028 \<or> c = 0x2029"

definition inRanges :: "(cu \<Rightarrow> cu) \<Rightarrow> (cu \<times> cu) list \<Rightarrow> cu \<Rightarrow> bool" where
  "inRanges canon rs c =
     list_ex (\<lambda>(lo, hi). list_ex (\<lambda>m. canon m = canon c) (map of_nat [unat lo ..< Suc (unat hi)])) rs"

text \<open>
  Matching by derivatives. \<open>atStart\<close> and \<open>atEnd\<close> say whether the position is the
  beginning and the end of the searched text, for the anchors.
\<close>

fun nullable :: "bool \<Rightarrow> bool \<Rightarrow> regex \<Rightarrow> bool" where
  "nullable atStart atEnd RNever = False"
| "nullable atStart atEnd REmpty = True"
| "nullable atStart atEnd (RChar a) = False"
| "nullable atStart atEnd RAny = False"
| "nullable atStart atEnd (RSet neg rs) = False"
| "nullable atStart atEnd RBol = atStart"
| "nullable atStart atEnd REol = atEnd"
| "nullable atStart atEnd (RSeq r s) = (nullable atStart atEnd r \<and> nullable atStart atEnd s)"
| "nullable atStart atEnd (RAlt r s) = (nullable atStart atEnd r \<or> nullable atStart atEnd s)"
| "nullable atStart atEnd (RStar r) = True"

fun deriv :: "(cu \<Rightarrow> cu) \<Rightarrow> bool \<Rightarrow> cu \<Rightarrow> regex \<Rightarrow> regex" where
  "deriv canon atStart c RNever = RNever"
| "deriv canon atStart c REmpty = RNever"
| "deriv canon atStart c (RChar a) = (if canon a = canon c then REmpty else RNever)"
| "deriv canon atStart c RAny = (if isLineTerminator c then RNever else REmpty)"
| "deriv canon atStart c (RSet neg rs) = (if inRanges canon rs c \<noteq> neg then REmpty else RNever)"
| "deriv canon atStart c RBol = RNever"
| "deriv canon atStart c REol = RNever"
| "deriv canon atStart c (RSeq r s) =
     RAlt (RSeq (deriv canon atStart c r) s)
          (if nullable atStart False r then deriv canon atStart c s else RNever)"
| "deriv canon atStart c (RAlt r s) = RAlt (deriv canon atStart c r) (deriv canon atStart c s)"
| "deriv canon atStart c (RStar r) = RSeq (deriv canon atStart c r) (RStar r)"

text \<open>Whether the pattern matches exactly the stretch \<open>w\<close> of the text.\<close>

fun accepts :: "(cu \<Rightarrow> cu) \<Rightarrow> bool \<Rightarrow> bool \<Rightarrow> regex \<Rightarrow> jsstring \<Rightarrow> bool" where
  "accepts canon atStart atEnd r [] = nullable atStart atEnd r"
| "accepts canon atStart atEnd r (c # w) = accepts canon False atEnd (deriv canon atStart c r) w"

text \<open>
  \<^verbatim>\<open>{ field: { $regex: regex } }\<close>: the pattern matches some stretch of the text, from
  position \<open>i\<close> up to position \<open>j\<close>.
\<close>

definition regexTest :: "(cu \<Rightarrow> cu) \<Rightarrow> regex \<Rightarrow> jsstring \<Rightarrow> bool" where
  "regexTest canon r s =
     list_ex (\<lambda>i. list_ex (\<lambda>j. accepts canon (i = 0) (j = length s) r (take (j - i) (drop i s)))
                           [i ..< Suc (length s)])
             [0 ..< Suc (length s)]"

section \<open>Documents and the store\<close>

text \<open>
  \<open>ChatDataSchema\<close>: a stored document. \<open>ident\<close> is the field \<open>_id\<close>. An image count
  is an integer here; the store is the list of its documents in natural order, or
  unavailable, when every call of the driver rejects.
\<close>

type_synonym objectId = nat

datatype fileType = TextFile | WordFile

record document =
  ident :: objectId
  title :: jsstring
  content :: jsstring
  fileType :: fileType
  htmlContent :: "jsstring option"
  imageCount :: int
  date :: jsstring
  createdAt :: int

datatype store = Store "document list" | Unavailable

text \<open>
  What the handler's calls can throw before the generation: the error of the RegExp
  constructor, or the driver's, which writes the source of a RegExp as a C string and
  rejects one that holds U+0000.
\<close>

datatype thrown = RegExpError reerror | BSONError

text \<open>
  \<^verbatim>\<open>ChatData.find({ $or: [{ title: { $regex: regex } }, { content: { $regex: regex } }] }).limit(6)\<close>
  The query is written for the store first, which fails on U+0000 in the source of the
  RegExp whatever the store holds. The store's engine is taken to read the pattern as
  the constructor does.
\<close>

definition matchesQuery :: "(cu \<Rightarrow> cu) \<Rightarrow> regExp \<Rightarrow> document \<Rightarrow> bool" where
  "matchesQuery canon regex d \<longleftrightarrow>
     regexTest canon (program regex) (title d) \<or> regexTest canon (program regex) (content d)"

definition findMatching :: "(cu \<Rightarrow> cu) \<Rightarrow> regExp \<Rightarrow> document list \<Rightarrow> thrown + document list" where
  "findMatching canon regex docs =
     (if 0 \<in> set (source regex) then Inl BSONError
      else Inr (take 6 (filter (matchesQuery canon regex) docs)))"

text \<open>
  \<^verbatim>\<open>ChatData.find().sort({ createdAt: -1 }).limit(6)\<close>; documents created at the same
  instant keep their natural order.
\<close>

definition findRecent :: "document list \<Rightarrow> document list" where
  "findRecent docs = take 6 (sort_key (\<lambda>d. - createdAt d) docs)"

section \<open>Selecting the context\<close>

text \<open>
  Lines 417 to 427 of the handler of \<open>POST /api/ask\<close>: the question is escaped, read as
  a pattern and searched for; the most recent documents stand in when nothing matches.
  An error thrown on the way leaves the handler through its \<open>catch\<close>.
\<close>

definition fallbackTaken :: "document list \<Rightarrow> bool" where
  "fallbackTaken relevantData \<longleftrightarrow> length relevantData = 0"

definition selectContext :: "(cu \<Rightarrow> cu) \<Rightarrow> jsstring \<Rightarrow> document list \<Rightarrow> thrown + document list" where
  "selectContext canon question docs =
     (case newRegExp (escapeRegex question) of
        Inl e \<Rightarrow> Inl (RegExpError e)
      | Inr regex \<Rightarrow>
          (case findMatching canon regex docs of
             Inl e \<Rightarrow> Inl e
           | Inr relevantData \<Rightarrow>
               if fallbackTaken relevantData then Inr (findRecent docs) else Inr relevantData))"

section \<open>Building the prompt\<close>

definition txtItem :: jsstring where
  "txtItem =
     js ''M'' @ [0x1EE5] @ js ''c ''"

definition txtSaved :: jsstring where
  "txtSaved =
     [0xA] @ js ''Ng'' @ [0xE0] @ js ''y l'' @ [0x1B0] @ js ''u: ''"

definition txtContent :: jsstring where
  "txtContent =
     [0xA] @ js ''N'' @ [0x1ED9] @ js ''i dung: ''"

definition txtWordOpen :: jsstring where
  "txtWordOpen =
     [0xA] @ js ''(T'' @ [0xE0] @ js ''i li'' @ [0x1EC7] @ js ''u Word c'' @ [0xF3] @
     js '' ''"

definition txtWordClose :: jsstring where
  "txtWordClose =
     js '' h'' @ [0xEC] @ js ''nh '' @ [0x1EA3] @ js ''nh)''"

definition promptPersona :: jsstring where
  "promptPersona =
     js ''B'' @ [0x1EA1] @ js ''n l'' @ [0xE0] @ js '' tr'' @ [0x1EE3] @ js '' l'' @
     [0xFD] @ js '' AI h'' @ [0x1ED7] @ js '' tr'' @ [0x1EE3] @ js '' h'' @ [0x1ECF] @
     js ''i '' @ [0x111, 0xE1] @ js ''p c'' @ [0x1EE7] @ js ''a '' @ [0x1EE7] @
     js ''y ban ph'' @ [0x1B0, 0x1EDD] @ js ''ng B'' @ [0xEC] @ js ''nh Th'' @ [0x1EA1] @
     js ''nh.''"

definition promptRules :: jsstring where
  "promptRules =
     js ''Lu'' @ [0xF4] @ js ''n tr'' @ [0x1EA3] @ js '' l'' @ [0x1EDD] @ js ''i b'' @
     [0x1EB1] @ js ''ng ti'' @ [0x1EBF] @ js ''ng Vi'' @ [0x1EC7] @ js ''t, ch'' @
     [0x1EC9] @ js '' s'' @ [0x1EED] @ js '' d'' @ [0x1EE5] @ js ''ng th'' @ [0xF4] @
     js ''ng tin trong d'' @ [0x1EEF] @ js '' li'' @ [0x1EC7] @ js ''u '' @
     [0x111, 0x1B0, 0x1EE3] @ js ''c cung c'' @ [0x1EA5] @ js ''p v'' @ [0xE0] @
     js '' lu'' @ [0xF4] @ js ''n ghi nh'' @ [0x1EDB] @ js '' Qu'' @ [0x1EAD] @ js ''n B'' @
     [0xEC] @ js ''nh Th'' @ [0x1EA1] @ js ''nh hi'' @ [0x1EC7] @ js ''n t'' @ [0x1EA1] @
     js ''i '' @ [0x111, 0xE3] @ js '' l'' @ [0xE0] @ js '' ph'' @ [0x1B0, 0x1EDD] @
     js ''ng B'' @ [0xEC] @ js ''nh Th'' @ [0x1EA1] @ js ''nh.''"

definition promptInsufficient :: jsstring where
  "promptInsufficient =
     js ''N'' @ [0x1EBF] @ js ''u d'' @ [0x1EEF] @ js '' li'' @ [0x1EC7] @ js ''u kh'' @
     [0xF4] @ js ''ng '' @ [0x111, 0x1EE7] @ js '', h'' @ [0xE3] @ js ''y n'' @ [0xF3] @
     js ''i r'' @ [0xF5] @ js '' v'' @ [0xE0] @ js '' g'' @ [0x1EE3] @ js ''i '' @ [0xFD] @
     js '' ng'' @ [0x1B0, 0x1EDD] @ js ''i d'' @ [0xF9] @ js ''ng ki'' @ [0x1EC3] @
     js ''m tra l'' @ [0x1EA1] @ js ''i sau.''"

definition promptData :: jsstring where
  "promptData =
     js ''D'' @ [0x1EEF] @ js '' li'' @ [0x1EC7] @ js ''u:''"

definition txtNoData :: jsstring where
  "txtNoData =
     js ''Kh'' @ [0xF4] @ js ''ng c'' @ [0xF3] @ js '' d'' @ [0x1EEF] @ js '' li'' @
     [0x1EC7] @ js ''u''"

definition promptQuestion :: jsstring where
  "promptQuestion =
     js ''C'' @ [0xE2] @ js ''u h'' @ [0x1ECF] @ js ''i: ''"

definition promptCue :: jsstring where
  "promptCue =
     js ''C'' @ [0xE2] @ js ''u tr'' @ [0x1EA3] @ js '' l'' @ [0x1EDD] @ js ''i chi ti'' @
     [0x1EBF] @ js ''t:''"

definition blankLine :: jsstring where
  "blankLine = [0xA, 0xA]"

text \<open>The callback of \<open>relevantData.map\<close>, with the index the array method passes.\<close>

definition itemText :: "nat \<Rightarrow> document \<Rightarrow> jsstring" where
  "itemText index item =
     (let text = txtItem @ digits (index + 1) @ js '': '' @ title item @ txtSaved @ date item @
                 txtContent @ content item
      in if fileType item = WordFile \<and> imageCount item > 0
         then text @ txtWordOpen @ numberToString (imageCount item) @ txtWordClose
         else text)"

fun mapIndexed :: "(nat \<Rightarrow> 'a \<Rightarrow> 'b) \<Rightarrow> nat \<Rightarrow> 'a list \<Rightarrow> 'b list" where
  "mapIndexed f i [] = []"
| "mapIndexed f i (x # xs) = f i x # mapIndexed f (Suc i) xs"

definition contextOf :: "document list \<Rightarrow> jsstring" where
  "contextOf relevantData = join blankLine (mapIndexed itemText 0 relevantData)"

definition buildPrompt :: "jsstring \<Rightarrow> document list \<Rightarrow> jsstring" where
  "buildPrompt question relevantData =
     (let context = contextOf relevantData
      in join blankLine
           [promptPersona,
            promptRules,
            promptInsufficient,
            promptData,
            if context = [] then txtNoData else context,
            promptQuestion @ question,
            promptCue])"

section \<open>Responses\<close>

definition msgMissingConfig :: jsstring where
  "msgMissingConfig =
     js ''Thi'' @ [0x1EBF] @ js ''u c'' @ [0x1EA5] @ js ''u h'' @ [0xEC] @
     js ''nh Gemini API''"

definition msgEnterQuestion :: jsstring where
  "msgEnterQuestion =
     js ''Vui l'' @ [0xF2] @ js ''ng nh'' @ [0x1EAD] @ js ''p c'' @ [0xE2] @ js ''u h'' @
     [0x1ECF] @ js ''i''"

definition msgCannotProcess :: jsstring where
  "msgCannotProcess =
     js ''Kh'' @ [0xF4] @ js ''ng th'' @ [0x1EC3] @ js '' x'' @ [0x1EED] @ js '' l'' @
     [0xFD] @ js '' y'' @ [0xEA] @ js ''u c'' @ [0x1EA7] @ js ''u. Vui l'' @ [0xF2] @
     js ''ng th'' @ [0x1EED] @ js '' l'' @ [0x1EA1] @ js ''i.''"

definition msgNoAnswer :: jsstring where
  "msgNoAnswer =
     js ''T'' @ [0xF4] @ js ''i ch'' @ [0x1B0] @ js ''a t'' @ [0xEC] @ js ''m th'' @
     [0x1EA5] @ js ''y th'' @ [0xF4] @ js ''ng tin ph'' @ [0xF9] @ js '' h'' @ [0x1EE3] @
     js ''p trong d'' @ [0x1EEF] @ js '' li'' @ [0x1EC7] @ js ''u hi'' @ [0x1EC7] @
     js ''n c'' @ [0xF3] @ js ''.''"

text \<open>
  The object a document is sent as: \<open>_id\<close> under the name \<open>id\<close>, then title, content,
  fileType, htmlContent, imageCount and date.
\<close>

record reference =
  refId :: objectId
  refTitle :: jsstring
  refContent :: jsstring
  refFileType :: fileType
  refHtmlContent :: "jsstring option"
  refImageCount :: int
  refDate :: jsstring

definition toReference :: "document \<Rightarrow> reference" where
  "toReference item =
     \<lparr>refId = ident item,
      refTitle = title item,
      refContent = content item,
      refFileType = fileType item,
      refHtmlContent = htmlContent item,
      refImageCount = imageCount item,
      refDate = date item\<rparr>"

text \<open>
  An error of the driver is sent as its own message, \<^verbatim>\<open>{ error: err.message }\<close>; the text
  is the driver's.
\<close>

datatype driverError = CastError | ValidationError | StoreError

datatype body =
    Error jsstring
  | ErrorOf driverError
  | Message jsstring
  | Answer jsstring "reference list"
  | Created reference

record response =
  status :: nat
  body :: body

section \<open>POST /api/ask\<close>

text \<open>
  A value of the request body; \<open>JObject\<close> stands for any object or array.
  \<open>generateContent\<close> gives a result without a text function, or a result whose text
  function returns a string; a call that throws is \<open>None\<close>.
\<close>

datatype jsvalue = JUndefined | JNull | JBoolean bool | JNumber int | JString jsstring | JObject

datatype generated = NoText | Text jsstring

fun truthy :: "jsvalue \<Rightarrow> bool" where
  "truthy JUndefined = False"
| "truthy JNull = False"
| "truthy (JBoolean b) = b"
| "truthy (JNumber n) = (n \<noteq> 0)"
| "truthy (JString s) = (s \<noteq> [])"
| "truthy JObject = True"

text \<open>
  \<^verbatim>\<open>(req.body.question || '').trim()\<close>; \<open>None\<close> is the TypeError of a value that has no
  method \<open>trim\<close>.
\<close>

definition questionOf :: "jsvalue \<Rightarrow> jsstring option" where
  "questionOf v =
     (if truthy v then (case v of JString s \<Rightarrow> Some (trim s) | _ \<Rightarrow> None) else Some (trim []))"

definition caught :: response where
  "caught = \<lparr>status = 500, body = Error msgCannotProcess\<rparr>"

text \<open>Lines 447 to 463: the answer and the references sent back.\<close>

definition shapeResponse :: "generated \<Rightarrow> document list \<Rightarrow> response" where
  "shapeResponse result relevantData =
     (let answer = (case result of Text t \<Rightarrow> t | NoText \<Rightarrow> [])
      in \<lparr>status = 200,
          body = Answer (if answer \<noteq> [] \<and> length (trim answer) > 0 then answer else msgNoAnswer)
                        (map toReference relevantData)\<rparr>)"

definition ask ::
  "(cu \<Rightarrow> cu) \<Rightarrow> (jsstring \<Rightarrow> generated option) option \<Rightarrow> jsvalue \<Rightarrow> store \<Rightarrow> response" where
  "ask canon geminiModel question store =
     (case geminiModel of
        None \<Rightarrow> \<lparr>status = 500, body = Error msgMissingConfig\<rparr>
      | Some generateContent \<Rightarrow>
          (case questionOf question of
             None \<Rightarrow> caught
           | Some q \<Rightarrow>
               if q = [] then \<lparr>status = 400, body = Error msgEnterQuestion\<rparr>
               else (case store of
                       Unavailable \<Rightarrow> caught
                     | Store docs \<Rightarrow>
                         (case selectContext canon q docs of
                            Inl e \<Rightarrow> caught
                          | Inr relevantData \<Rightarrow>
                              (case generateContent (buildPrompt q relevantData) of
                                 None \<Rightarrow> caught
                               | Some result \<Rightarrow> shapeResponse result relevantData)))))"

section \<open>POST /api/data and DELETE /api/data/:id\<close>

text \<open>
  The fields of the request body, each a string (a number for the image count) or
  absent. The defaults of the schema are evaluated when the document is built: the new
  identifier, the instant and its rendering in the locale come from outside.
\<close>

record dataRequest =
  reqTitle :: "jsstring option"
  reqContent :: "jsstring option"
  reqFileType :: "jsstring option"
  reqHtmlContent :: "jsstring option"
  reqImageCount :: "int option"

record defaults =
  newId :: objectId
  nowLocale :: jsstring
  now :: int

definition falsy :: "jsstring option \<Rightarrow> bool" where
  "falsy v \<longleftrightarrow> v = None \<or> v = Some []"

text \<open>The enum of the schema: \<^verbatim>\<open>enum: ['text', 'word']\<close>.\<close>

definition fileTypeOf :: "jsstring \<Rightarrow> fileType option" where
  "fileTypeOf s = (if s = js ''text'' then Some TextFile else if s = js ''word'' then Some WordFile else None)"

definition createData :: "defaults \<Rightarrow> dataRequest \<Rightarrow> store \<Rightarrow> store \<times> response" where
  "createData env req store =
     (if falsy (reqTitle req) \<or> falsy (reqContent req)
      then (store, \<lparr>status = 400, body = Error (js ''Title and content are required'')\<rparr>)
      else
        (case fileTypeOf (if falsy (reqFileType req) then js ''text'' else the (reqFileType req)) of
           None \<Rightarrow> (store, \<lparr>status = 400, body = ErrorOf ValidationError\<rparr>)
         | Some ft \<Rightarrow>
             (case store of
                Unavailable \<Rightarrow> (store, \<lparr>status = 400, body = ErrorOf StoreError\<rparr>)
              | Store docs \<Rightarrow>
                  (let newData =
                     \<lparr>ident = newId env,
                      title = the (reqTitle req),
                      content = the (reqContent req),
                      fileType = ft,
                      htmlContent = (if falsy (reqHtmlContent req) then None else reqHtmlContent req),
                      imageCount = (case reqImageCount req of None \<Rightarrow> 0 | Some n \<Rightarrow> n),
                      date = nowLocale env,
                      createdAt = now env\<rparr>
                   in (Store (docs @ [newData]), \<lparr>status = 200, body = Created (toReference newData)\<rparr>)))))"

text \<open>
  The route parameter is an ObjectId or a string the driver cannot cast to one.
  \<open>findByIdAndDelete\<close> removes the document of that identifier, if there is one. The
  line the handler logs for a deleted document is not part of the response.
\<close>

datatype idParam = ObjectId objectId | NotObjectId jsstring

fun removeById :: "objectId \<Rightarrow> document list \<Rightarrow> document list" where
  "removeById i [] = []"
| "removeById i (d # ds) = (if ident d = i then ds else d # removeById i ds)"

definition deleteData :: "idParam \<Rightarrow> store \<Rightarrow> store \<times> response" where
  "deleteData param store =
     (case param of
        NotObjectId s \<Rightarrow> (store, \<lparr>status = 500, body = ErrorOf CastError\<rparr>)
      | ObjectId i \<Rightarrow>
          (case store of
             Unavailable \<Rightarrow> (store, \<lparr>status = 500, body = ErrorOf StoreError\<rparr>)
           | Store docs \<Rightarrow>
               (Store (removeById i docs), \<lparr>status = 200, body = Message (js ''Deleted successfully'')\<rparr>)))"

section \<open>The earlier handler of POST /api/ask\<close>

text \<open>
  The handler as the earlier revision of the server has it: the same guards and the same
  selection, blocks without the line on images, and references of four fields. Its
  literals are the code units that revision's file holds. Of a document it reads the
  identifier, the title, the content and the dates only.
\<close>

definition legacyMissingConfig :: jsstring where
  "legacyMissingConfig =
     js ''Thi'' @ [0xE1, 0xBA, 0xBF] @ js ''u c'' @ [0xE1, 0xBA, 0xA5] @ js ''u h'' @
     [0xC3, 0xAC] @ js ''nh Gemini API''"

definition legacyEnterQuestion :: jsstring where
  "legacyEnterQuestion =
     js ''Vui l'' @ [0xC3, 0xB2] @ js ''ng nh'' @ [0xE1, 0xBA, 0xAD] @ js ''p c'' @
     [0xC3, 0xA2] @ js ''u h'' @ [0xE1, 0xBB, 0x8F] @ js ''i''"

definition legacyCannotProcess :: jsstring where
  "legacyCannotProcess =
     js ''Kh'' @ [0xC3, 0xB4] @ js ''ng th'' @ [0xE1, 0xBB, 0x192] @ js '' x'' @
     [0xE1, 0xBB, 0xAD] @ js '' l'' @ [0xC3, 0xBD] @ js '' y'' @ [0xC3, 0xAA] @ js ''u c'' @
     [0xE1, 0xBA, 0xA7] @ js ''u. Vui l'' @ [0xC3, 0xB2] @ js ''ng th'' @
     [0xE1, 0xBB, 0xAD] @ js '' l'' @ [0xE1, 0xBA, 0xA1] @ js ''i.''"

definition legacyNoAnswer :: jsstring where
  "legacyNoAnswer =
     js ''T'' @ [0xC3, 0xB4] @ js ''i ch'' @ [0xC6, 0xB0] @ js ''a t'' @ [0xC3, 0xAC] @
     js ''m th'' @ [0xE1, 0xBA, 0xA5] @ js ''y th'' @ [0xC3, 0xB4] @ js ''ng tin ph'' @
     [0xC3, 0xB9] @ js '' h'' @ [0xE1, 0xBB, 0xA3] @ js ''p trong d'' @ [0xE1, 0xBB, 0xAF] @
     js '' li'' @ [0xE1, 0xBB, 0x2021] @ js ''u hi'' @ [0xE1, 0xBB, 0x2021] @ js ''n c'' @
     [0xC3, 0xB3] @ js ''.''"

definition legacyItem :: jsstring where
  "legacyItem =
     js ''M'' @ [0xE1, 0xBB, 0xA5] @ js ''c ''"

definition legacySep :: jsstring where
  "legacySep =
     js '': ''"

definition legacySaved :: jsstring where
  "legacySaved =
     [0xA] @ js ''Ng'' @ [0xC3, 0xA0] @ js ''y l'' @ [0xC6, 0xB0] @ js ''u: ''"

definition legacyContent :: jsstring where
  "legacyContent =
     [0xA] @ js ''N'' @ [0xE1, 0xBB, 0x2122] @ js ''i dung: ''"

definition legacyPersona :: jsstring where
  "legacyPersona =
     js ''B'' @ [0xE1, 0xBA, 0xA1] @ js ''n l'' @ [0xC3, 0xA0] @ js '' tr'' @
     [0xE1, 0xBB, 0xA3] @ js '' l'' @ [0xC3, 0xBD] @ js '' AI h'' @ [0xE1, 0xBB, 0x2014] @
     js '' tr'' @ [0xE1, 0xBB, 0xA3] @ js '' b'' @ [0xE1, 0xBA, 0xA7] @ js ''u c'' @
     [0xE1, 0xBB, 0xAD] @ js '' Ph'' @ [0xC6, 0xB0, 0xE1, 0xBB, 0x9D] @ js ''ng Ho'' @
     [0xC3, 0xA0] @ js ''i Nh'' @ [0xC6, 0xA1] @ js ''n B'' @ [0xE1, 0xBA, 0xAF] @ js ''c.''"

definition legacyRules :: jsstring where
  "legacyRules =
     js ''Lu'' @ [0xC3, 0xB4] @ js ''n tr'' @ [0xE1, 0xBA, 0xA3] @ js '' l'' @
     [0xE1, 0xBB, 0x9D] @ js ''i b'' @ [0xE1, 0xBA, 0xB1] @ js ''ng ti'' @
     [0xE1, 0xBA, 0xBF] @ js ''ng Vi'' @ [0xE1, 0xBB, 0x2021] @ js ''t, ch'' @
     [0xE1, 0xBB, 0x2030] @ js '' s'' @ [0xE1, 0xBB, 0xAD] @ js '' d'' @
     [0xE1, 0xBB, 0xA5] @ js ''ng th'' @ [0xC3, 0xB4] @ js ''ng tin trong d'' @
     [0xE1, 0xBB, 0xAF] @ js '' li'' @ [0xE1, 0xBB, 0x2021] @ js ''u '' @
     [0xC4, 0x2018, 0xC6, 0xB0, 0xE1, 0xBB, 0xA3] @ js ''c cung c'' @ [0xE1, 0xBA, 0xA5] @
     js ''p.''"

definition legacyInsufficient :: jsstring where
  "legacyInsufficient =
     js ''N'' @ [0xE1, 0xBA, 0xBF] @ js ''u d'' @ [0xE1, 0xBB, 0xAF] @ js '' li'' @
     [0xE1, 0xBB, 0x2021] @ js ''u kh'' @ [0xC3, 0xB4] @ js ''ng '' @
     [0xC4, 0x2018, 0xE1, 0xBB, 0xA7] @ js '', h'' @ [0xC3, 0xA3] @ js ''y n'' @
     [0xC3, 0xB3] @ js ''i r'' @ [0xC3, 0xB5] @ js '' v'' @ [0xC3, 0xA0] @ js '' g'' @
     [0xE1, 0xBB, 0xA3] @ js ''i '' @ [0xC3, 0xBD] @ js '' ng'' @
     [0xC6, 0xB0, 0xE1, 0xBB, 0x9D] @ js ''i d'' @ [0xC3, 0xB9] @ js ''ng ki'' @
     [0xE1, 0xBB, 0x192] @ js ''m tra l'' @ [0xE1, 0xBA, 0xA1] @ js ''i sau.''"

definition legacyData :: jsstring where
  "legacyData =
     js ''D'' @ [0xE1, 0xBB, 0xAF] @ js '' li'' @ [0xE1, 0xBB, 0x2021] @ js ''u:''"

definition legacyNoData :: jsstring where
  "legacyNoData =
     js ''Kh'' @ [0xC3, 0xB4] @ js ''ng c'' @ [0xC3, 0xB3] @ js '' d'' @
     [0xE1, 0xBB, 0xAF] @ js '' li'' @ [0xE1, 0xBB, 0x2021] @ js ''u''"

definition legacyQuestion :: jsstring where
  "legacyQuestion =
     js ''C'' @ [0xC3, 0xA2] @ js ''u h'' @ [0xE1, 0xBB, 0x8F] @ js ''i: ''"

definition legacyCue :: jsstring where
  "legacyCue =
     js ''C'' @ [0xC3, 0xA2] @ js ''u tr'' @ [0xE1, 0xBA, 0xA3] @ js '' l'' @
     [0xE1, 0xBB, 0x9D] @ js ''i chi ti'' @ [0xE1, 0xBA, 0xBF] @ js ''t:''"

record legacyReference =
  lrefId :: objectId
  lrefTitle :: jsstring
  lrefContent :: jsstring
  lrefDate :: jsstring

datatype legacyBody = LegacyError jsstring | LegacyAnswer jsstring "legacyReference list"

record legacyResponse =
  legacyStatus :: nat
  legacyBody :: legacyBody

definition legacyItemText :: "nat \<Rightarrow> document \<Rightarrow> jsstring" where
  "legacyItemText index item =
     legacyItem @ digits (index + 1) @ legacySep @ title item @ legacySaved @ date item @
     legacyContent @ content item"

definition legacyPrompt :: "jsstring \<Rightarrow> document list \<Rightarrow> jsstring" where
  "legacyPrompt question relevantData =
     (let context = join blankLine (mapIndexed legacyItemText 0 relevantData)
      in join blankLine
           [legacyPersona,
            legacyRules,
            legacyInsufficient,
            legacyData,
            if context = [] then legacyNoData else context,
            legacyQuestion @ question,
            legacyCue])"

definition legacyCaught :: legacyResponse where
  "legacyCaught = \<lparr>legacyStatus = 500, legacyBody = LegacyError legacyCannotProcess\<rparr>"

definition askLegacy ::
  "(cu \<Rightarrow> cu) \<Rightarrow> (jsstring \<Rightarrow> generated option) option \<Rightarrow> jsvalue \<Rightarrow> store \<Rightarrow> legacyResponse" where
  "askLegacy canon geminiModel question store =
     (case geminiModel of
        None \<Rightarrow> \<lparr>legacyStatus = 500, legacyBody = LegacyError legacyMissingConfig\<rparr>
      | Some generateContent \<Rightarrow>
          (case questionOf question of
             None \<Rightarrow> legacyCaught
           | Some q \<Rightarrow>
               if q = [] then \<lparr>legacyStatus = 400, legacyBody = LegacyError legacyEnterQuestion\<rparr>
               else (case store of
                       Unavailable \<Rightarrow> legacyCaught
                     | Store docs \<Rightarrow>
                         (case selectContext canon q docs of
                            Inl e \<Rightarrow> legacyCaught
                          | Inr relevantData \<Rightarrow>
                              (case generateContent (legacyPrompt q relevantData) of
                                 None \<Rightarrow> legacyCaught
                               | Some result \<Rightarrow>
                                   (let answer = (case result of Text t \<Rightarrow> t | NoText \<Rightarrow> [])
                                    in \<lparr>legacyStatus = 200,
                                        legacyBody =
                                          LegacyAnswer
                                            (if answer \<noteq> [] \<and> length (trim answer) > 0 then answer
                                             else legacyNoAnswer)
                                            (map (\<lambda>item. \<lparr>lrefId = ident item,
                                                           lrefTitle = title item,
                                                           lrefContent = content item,
                                                           lrefDate = date item\<rparr>)
                                                 relevantData)\<rparr>))))))"

section \<open>The vocabulary of the claims\<close>

text \<open>
  A text contains the question as a case-insensitive literal substring: at some position
  it holds a stretch that equals the question, code unit by code unit, up to case.
\<close>

definition containsLiteral :: "(cu \<Rightarrow> cu) \<Rightarrow> jsstring \<Rightarrow> jsstring \<Rightarrow> bool" where
  "containsLiteral canon q s =
     list_ex (\<lambda>i. map canon (take (length q) (drop i s)) = map canon q) [0 ..< Suc (length s)]"

definition literalMatch :: "(cu \<Rightarrow> cu) \<Rightarrow> jsstring \<Rightarrow> document \<Rightarrow> bool" where
  "literalMatch canon q d \<longleftrightarrow> containsLiteral canon q (title d) \<or> containsLiteral canon q (content d)"

text \<open>A string that is empty or holds white space only.\<close>

definition blank :: "jsstring \<Rightarrow> bool" where
  "blank s \<longleftrightarrow> list_all isWhiteSpace s"

text \<open>
  The numbered block of a document: number, title, display date and content. The line
  on embedded images that may follow it.
\<close>

definition numberedBlock :: "nat \<Rightarrow> document \<Rightarrow> jsstring" where
  "numberedBlock n d =
     txtItem @ digits n @ js '': '' @ title d @ txtSaved @ date d @ txtContent @ content d"

definition imageAnnotation :: "document \<Rightarrow> jsstring" where
  "imageAnnotation d = txtWordOpen @ numberToString (imageCount d) @ txtWordClose"

text \<open>The invariant of the data model: a text document carries no markup.\<close>

definition textHasNoHtml :: "document \<Rightarrow> bool" where
  "textHasNoHtml d \<longleftrightarrow> (fileType d = TextFile \<longrightarrow> htmlContent d = None)"

definition storeInvariant :: "store \<Rightarrow> bool" where
  "storeInvariant store = (case store of Store docs \<Rightarrow> list_all textHasNoHtml docs | Unavailable \<Rightarrow> True)"

section \<open>Examples\<close>

text \<open>Canonical forms for the letters of ASCII; a document of each kind; requests.\<close>

definition asciiCanon :: "cu \<Rightarrow> cu" where
  "asciiCanon c = (if 0x61 \<le> c \<and> c \<le> 0x7A then c - 0x20 else c)"

definition meetingDoc :: document where
  "meetingDoc =
     \<lparr>ident = 1,
      title = js ''L'' @ [0x1ECB] @ js ''ch h'' @ [0x1ECD] @ js ''p'',
      content = js ''H'' @ [0x1ECD] @ js ''p v'' @ [0xE0] @ js ''o th'' @ [0x1EE9] @ js '' 2'',
      fileType = TextFile,
      htmlContent = None,
      imageCount = 0,
      date = js ''10:00:00 1/11/2026'',
      createdAt = 1000\<rparr>"

definition reportDoc :: document where
  "reportDoc =
     \<lparr>ident = 2,
      title = js ''a.b*c'',
      content = js ''B'' @ [0xE1] @ js ''o c'' @ [0xE1] @ js ''o'',
      fileType = WordFile,
      htmlContent = Some (js ''<p>x</p>''),
      imageCount = 3,
      date = js ''11:00:00 2/11/2026'',
      createdAt = 2000\<rparr>"

definition lichQuestion :: jsstring where
  "lichQuestion = js ''l'' @ [0x1ECB] @ js ''ch''"



definition nulQuestion :: jsstring where
  "nulQuestion = js ''a'' @ [0x0] @ js ''b''"


definition exampleDefaults :: defaults where
  "exampleDefaults = \<lparr>newId = 3, nowLocale = js ''12:00:00 3/11/2026'', now = 3000\<rparr>"

definition htmlTextRequest :: dataRequest where
  "htmlTextRequest =
     \<lparr>reqTitle = Some (js ''a''),
      reqContent = Some (js ''b''),
      reqFileType = Some (js ''text''),
      reqHtmlContent = Some (js ''<p>x</p>''),
      reqImageCount = None\<rparr>"

definition htmlOnlyRequest :: dataRequest where
  "htmlOnlyRequest = htmlTextRequest\<lparr>reqFileType := None\<rparr>"

definition plainRequest :: dataRequest where
  "plainRequest = htmlTextRequest\<lparr>reqHtmlContent := None\<rparr>"

section \<open>Lemmas\<close>

subsection \<open>An escaped question is read as its own characters\<close>

text \<open>
  The class of \<open>escapeRegex\<close> is exactly the syntax characters of the pattern grammar,
  so the reader meets a syntax character only behind a backslash.
\<close>

lemma escapeSet_iff:
  "c \<in> set escapeSet \<longleftrightarrow>
     c = 0x2E \<or> c = 0x2A \<or> c = 0x2B \<or> c = 0x3F \<or> c = 0x5E \<or> c = 0x24 \<or> c = 0x7B \<or>
     c = 0x7D \<or> c = 0x28 \<or> c = 0x29 \<or> c = 0x7C \<or> c = 0x5B \<or> c = 0x5D \<or> c = 0x5C"
  by (simp add: escapeSet_def js_def ch_def backslash_def)

lemma escapeSet_isSyntaxCharacter: "c \<in> set escapeSet \<longleftrightarrow> isSyntaxCharacter c"
  by (auto simp add: isSyntaxCharacter_def escapeSet_iff js_def ch_def backslash_def)

lemma atomEscape_escaped:
  assumes "c \<in> set escapeSet"
  shows "atomEscape c ds = Inr (RChar c)"
proof -
  have "c = 0x2E \<or> c = 0x2A \<or> c = 0x2B \<or> c = 0x3F \<or> c = 0x5E \<or> c = 0x24 \<or> c = 0x7B \<or>
     c = 0x7D \<or> c = 0x28 \<or> c = 0x29 \<or> c = 0x7C \<or> c = 0x5B \<or> c = 0x5D \<or> c = 0x5C"
    using assms by (simp only: escapeSet_iff)
  then show ?thesis
    by (elim disjE) (simp_all add: atomEscape_def controlEscape_def isDigit_def js_def ch_def)
qed

lemma parsePattern_escaped:
  "c \<in> set escapeSet \<Longrightarrow>
   parsePattern stack (alts, ts) lt (backslash # c # cs) = parsePattern stack (alts, RChar c # ts) Quantifiable cs"
  by (simp add: atomEscape_escaped)

lemma parsePattern_plain:
  "c \<notin> set escapeSet \<Longrightarrow>
   parsePattern stack (alts, ts) lt (c # cs) = parsePattern stack (alts, RChar c # ts) Quantifiable cs"
  by (simp add: escapeSet_def js_def ch_def backslash_def)

lemma parsePattern_escapeRegex:
  "parsePattern stack (alts, ts) lt (escapeRegex q @ cs) =
   parsePattern stack (alts, rev (map RChar q) @ ts) (if q = [] then lt else Quantifiable) cs"
proof (induction q arbitrary: ts lt)
  case Nil
  show ?case by (simp add: escapeRegex_def)
next
  case (Cons c q)
  have step: "escapeRegex (c # q) = (if c \<in> set escapeSet then [backslash, c] else [c]) @ escapeRegex q"
    by (simp add: escapeRegex_def)
  show ?case
  proof (cases "c \<in> set escapeSet")
    case True
    then show ?thesis
      using Cons.IH [of "RChar c # ts" Quantifiable]
      by (simp add: step parsePattern_escaped del: parsePattern.simps)
  next
    case False
    then show ?thesis
      using Cons.IH [of "RChar c # ts" Quantifiable]
      by (simp add: step parsePattern_plain del: parsePattern.simps)
  qed
qed

lemma newRegExp_escapeRegex:
  "newRegExp (escapeRegex q) = Inr \<lparr>source = escapeRegex q, program = mkSeq (map RChar q)\<rparr>"
  using parsePattern_escapeRegex [of "[]" "[]" "[]" NoTerm q "[]"]
  by (simp add: newRegExp_def closeFrame_def)

lemma nul_escapeRegex: "(0 \<in> set (escapeRegex q)) = (0 \<in> set q)"
  by (induction q) (auto simp add: escapeRegex_def backslash_def)

subsection \<open>Searching for literal characters\<close>

lemma accepts_RNever: "accepts canon st en RNever w = False"
  by (induction w arbitrary: st) simp_all

lemma accepts_RAlt: "accepts canon st en (RAlt r s) w = (accepts canon st en r w \<or> accepts canon st en s w)"
  by (induction w arbitrary: r s st) simp_all

lemma accepts_RSeq_RNever: "accepts canon st en (RSeq RNever r) w = False"
  by (induction w arbitrary: st) (simp_all add: accepts_RAlt accepts_RNever)

lemma accepts_RSeq_REmpty: "accepts canon st en (RSeq REmpty r) w = accepts canon st en r w"
  by (cases w) (simp_all add: accepts_RAlt accepts_RSeq_RNever)

lemma accepts_literal:
  "accepts canon st en (mkSeq (map RChar q)) w = (map canon w = map canon q)"
proof (induction q arbitrary: w st)
  case Nil
  show ?case by (cases w) (simp_all add: accepts_RNever)
next
  case (Cons a q)
  show ?case
  proof (cases w)
    case Nil
    then show ?thesis by simp
  next
    case (Cons c w')
    then show ?thesis
      using Cons.IH [of False w']
      by (auto simp add: accepts_RAlt accepts_RNever accepts_RSeq_RNever accepts_RSeq_REmpty)
  qed
qed

lemma list_ex_upt_Suc: "list_ex P [a ..< Suc b] = (\<exists>i. a \<le> i \<and> i \<le> b \<and> P i)"
  by (auto simp add: list_ex_iff)

lemma regexTest_literal: "regexTest canon (mkSeq (map RChar q)) s = containsLiteral canon q s"
proof -
  have "(\<exists>i. 0 \<le> i \<and> i \<le> length s \<and>
          (\<exists>j. i \<le> j \<and> j \<le> length s \<and> map canon (take (j - i) (drop i s)) = map canon q))
        = (\<exists>i. 0 \<le> i \<and> i \<le> length s \<and> map canon (take (length q) (drop i s)) = map canon q)"
    (is "?L = ?R")
  proof
    assume ?L
    then obtain i j where ij: "i \<le> length s" "i \<le> j" "j \<le> length s"
      and eq: "map canon (take (j - i) (drop i s)) = map canon q" by blast
    from eq have "length (take (j - i) (drop i s)) = length q"
      by (metis length_map)
    with ij have "j - i = length q" by simp
    with eq ij have "i \<le> length s \<and> map canon (take (length q) (drop i s)) = map canon q"
      by simp
    then show ?R by blast
  next
    assume ?R
    then obtain i where i: "i \<le> length s"
      and eq: "map canon (take (length q) (drop i s)) = map canon q" by blast
    from eq have "length (take (length q) (drop i s)) = length q"
      by (metis length_map)
    then have "length q \<le> length s - i" by simp
    with i eq have "i \<le> i + length q \<and> i + length q \<le> length s
        \<and> map canon (take (i + length q - i) (drop i s)) = map canon q" by simp
    with i show ?L by blast
  qed
  then show ?thesis
    unfolding regexTest_def containsLiteral_def list_ex_upt_Suc accepts_literal .
qed

lemma containsLiteral_iff:
  "containsLiteral canon q s \<longleftrightarrow> (\<exists>pre mid post. s = pre @ mid @ post \<and> map canon mid = map canon q)"
proof
  assume "containsLiteral canon q s"
  then obtain i where "map canon (take (length q) (drop i s)) = map canon q"
    by (auto simp add: containsLiteral_def list_ex_iff)
  moreover have "s = take i s @ take (length q) (drop i s) @ drop (length q) (drop i s)"
    by (simp only: append_take_drop_id)
  ultimately show "\<exists>pre mid post. s = pre @ mid @ post \<and> map canon mid = map canon q"
    by blast
next
  assume "\<exists>pre mid post. s = pre @ mid @ post \<and> map canon mid = map canon q"
  then obtain pre mid post where s: "s = pre @ mid @ post" and eq: "map canon mid = map canon q"
    by blast
  from eq have "length mid = length q" by (metis length_map)
  with s eq have "map canon (take (length q) (drop (length pre) s)) = map canon q" by simp
  moreover from s have "length pre \<le> length s" by simp
  ultimately show "containsLiteral canon q s"
    unfolding containsLiteral_def list_ex_upt_Suc by blast
qed

subsection \<open>The selection\<close>

lemma matchesQuery_literal:
  "program regex = mkSeq (map RChar q) \<Longrightarrow> matchesQuery canon regex = literalMatch canon q"
  by (rule ext) (simp add: matchesQuery_def literalMatch_def regexTest_literal)

lemma findMatching_escaped:
  "findMatching canon \<lparr>source = escapeRegex q, program = mkSeq (map RChar q)\<rparr> docs =
     (if 0 \<in> set q then Inl BSONError else Inr (take 6 (filter (literalMatch canon q) docs)))"
  by (simp add: findMatching_def nul_escapeRegex matchesQuery_literal)


lemma fallbackTaken_take: "fallbackTaken (take 6 xs) = (xs = [])"
  by (cases xs) (simp_all add: fallbackTaken_def)

lemma selectContext_eq:
  "0 \<notin> set q \<Longrightarrow>
   selectContext canon q docs =
     Inr (if filter (literalMatch canon q) docs = [] then findRecent docs
          else take 6 (filter (literalMatch canon q) docs))"
  by (simp add: selectContext_def newRegExp_escapeRegex findMatching_escaped fallbackTaken_take)






lemma no_nul_examples:
  "0 \<notin> set lichQuestion" "0 \<notin> set (js ''...'')" "0 \<notin> set (js ''a.b*c'')" "0 \<notin> set (js ''xyz'')"
  "0 \<in> set nulQuestion"
  by (simp_all add: lichQuestion_def nulQuestion_def js_def ch_def)

lemma lich_examples:
  "literalMatch asciiCanon lichQuestion meetingDoc"
  "\<not> literalMatch asciiCanon lichQuestion reportDoc"
  by (simp_all add: literalMatch_def containsLiteral_def lichQuestion_def meetingDoc_def reportDoc_def
        js_def ch_def asciiCanon_def)




text \<open>
  Unescaped, the same characters are read as the grammar says: an unclosed group and a
  quantifier with nothing to repeat are errors, a dot and a star match other texts.
\<close>

lemma unescaped_bracket_raises: "newRegExp (js ''a(b'') = Inl SyntaxError"
  by (simp add: newRegExp_def closeFrame_def js_def ch_def backslash_def)

lemma unescaped_star_raises: "newRegExp (js ''*a'') = Inl SyntaxError"
  by (simp add: newRegExp_def closeFrame_def js_def ch_def backslash_def)

lemma unescaped_pattern_is_wildcard:
  "newRegExp (js ''a.b*c'') =
     Inr \<lparr>source = js ''a.b*c'',
          program = RSeq (RChar 0x61) (RSeq RAny (RSeq (RStar (RChar 0x62)) (RSeq (RChar 0x63) REmpty)))\<rparr> \<and>
   regexTest asciiCanon (RSeq (RChar 0x61) (RSeq RAny (RSeq (RStar (RChar 0x62)) (RSeq (RChar 0x63) REmpty))))
     (js ''axbbc'')"
  by (simp add: newRegExp_def closeFrame_def quantifierOf_def js_def ch_def backslash_def regexTest_def
        isLineTerminator_def asciiCanon_def)

subsection \<open>The most recent documents\<close>




subsection \<open>The answer\<close>

lemma trim_Nil_iff: "trim s = [] \<longleftrightarrow> blank s"
proof -
  have "(\<forall>x\<in>set (dropWhile isWhiteSpace s). isWhiteSpace x) \<longleftrightarrow> dropWhile isWhiteSpace s = []"
  proof
    assume a: "\<forall>x\<in>set (dropWhile isWhiteSpace s). isWhiteSpace x"
    show "dropWhile isWhiteSpace s = []"
    proof (rule ccontr)
      assume n: "dropWhile isWhiteSpace s \<noteq> []"
      then have "\<not> isWhiteSpace (hd (dropWhile isWhiteSpace s))" by (rule hd_dropWhile)
      moreover from n have "hd (dropWhile isWhiteSpace s) \<in> set (dropWhile isWhiteSpace s)"
        by (rule hd_in_set)
      ultimately show False using a by blast
    qed
  next
    assume "dropWhile isWhiteSpace s = []"
    then show "\<forall>x\<in>set (dropWhile isWhiteSpace s). isWhiteSpace x"
      by (simp only: list.set ball_empty)
  qed
  then show ?thesis
    by (simp add: trim_def blank_def dropWhile_eq_Nil_conv list_all_iff)
qed

lemma msgNoAnswer_not_blank: "\<not> blank msgNoAnswer"
  by (simp add: blank_def msgNoAnswer_def js_def ch_def isWhiteSpace_def)

lemma shapeResponse_body:
  "body (shapeResponse result relevantData) =
     Answer (case result of NoText \<Rightarrow> msgNoAnswer | Text t \<Rightarrow> if blank t then msgNoAnswer else t)
            (map toReference relevantData)"
  by (cases result) (auto simp add: shapeResponse_def trim_Nil_iff blank_def)

lemma shapeResponse_status: "status (shapeResponse result relevantData) = 200"
  by (simp add: shapeResponse_def Let_def)

subsection \<open>The prompt\<close>

lemma txtNoData_nonempty: "txtNoData \<noteq> []"
  by (simp add: txtNoData_def js_def)

lemma length_mapIndexed: "length (mapIndexed f k xs) = length xs"
  by (induction xs arbitrary: k) simp_all

lemma nth_mapIndexed: "i < length xs \<Longrightarrow> mapIndexed f k xs ! i = f (k + i) (xs ! i)"
proof (induction xs arbitrary: k i)
  case Nil
  then show ?case by simp
next
  case (Cons x xs)
  show ?case
  proof (cases i)
    case 0
    then show ?thesis by simp
  next
    case (Suc j)
    with Cons.prems have "j < length xs" by simp
    from Cons.IH [OF this, of "Suc k"] Suc show ?thesis by simp
  qed
qed

lemma itemText_block:
  "itemText i d =
     numberedBlock (i + 1) d @
     (if fileType d = WordFile \<and> imageCount d > 0 then imageAnnotation d else [])"
  by (simp add: itemText_def numberedBlock_def imageAnnotation_def Let_def)

lemma itemText_nonempty: "itemText i d \<noteq> []"
  by (simp add: itemText_def Let_def txtItem_def js_def)

lemma join_nonempty: "x \<noteq> [] \<Longrightarrow> join sep (x # xs) \<noteq> []"
  by (cases xs) simp_all

lemma contextOf_nonempty: "relevantData \<noteq> [] \<Longrightarrow> contextOf relevantData \<noteq> []"
  by (cases relevantData) (simp_all add: contextOf_def join_nonempty itemText_nonempty)

lemma digits_examples: "digits (Suc 0) = [0x31]" "digits (Suc (Suc 0)) = [0x32]" "digits 3 = [0x33]"
  by (simp_all add: digits.simps)

lemma block_meeting:
  "numberedBlock (0 + 1) ([meetingDoc, reportDoc] ! 0) @
     (if fileType ([meetingDoc, reportDoc] ! 0) = WordFile \<and> imageCount ([meetingDoc, reportDoc] ! 0) > 0
      then imageAnnotation ([meetingDoc, reportDoc] ! 0) else []) =
   txtItem @ js ''1: '' @ title meetingDoc @ txtSaved @ date meetingDoc @ txtContent @ content meetingDoc"
  by (simp add: numberedBlock_def digits_examples js_def ch_def meetingDoc_def)

lemma block_report:
  "numberedBlock (1 + 1) ([meetingDoc, reportDoc] ! 1) @
     (if fileType ([meetingDoc, reportDoc] ! 1) = WordFile \<and> imageCount ([meetingDoc, reportDoc] ! 1) > 0
      then imageAnnotation ([meetingDoc, reportDoc] ! 1) else []) =
   txtItem @ js ''2: '' @ title reportDoc @ txtSaved @ date reportDoc @ txtContent @ content reportDoc @
   txtWordOpen @ js ''3'' @ txtWordClose"
  by (simp add: numberedBlock_def imageAnnotation_def numberToString_def digits_examples js_def ch_def
        reportDoc_def)

subsection \<open>The store\<close>

lemma js_text_word:
  "js ''text'' \<noteq> js ''word''" "js ''word'' \<noteq> js ''text''" "js ''text'' \<noteq> []" "js ''word'' \<noteq> []"
  "js ''a'' \<noteq> []" "js ''b'' \<noteq> []" "js ''<p>x</p>'' \<noteq> []" "js ''   '' \<noteq> []"
  "[] \<noteq> js ''text''" "[] \<noteq> js ''word''"
  by (simp_all add: js_def ch_def)

lemma createData_cases:
  "createData env req store = (store, \<lparr>status = 400, body = Error (js ''Title and content are required'')\<rparr>) \<or>
   createData env req store = (store, \<lparr>status = 400, body = ErrorOf ValidationError\<rparr>) \<or>
   createData env req store = (store, \<lparr>status = 400, body = ErrorOf StoreError\<rparr>) \<or>
   (\<exists>docs ft. store = Store docs \<and>
      fileTypeOf (if falsy (reqFileType req) then js ''text'' else the (reqFileType req)) = Some ft \<and>
      fst (createData env req store) =
        Store (docs @ [\<lparr>ident = newId env, title = the (reqTitle req), content = the (reqContent req),
                        fileType = ft,
                        htmlContent = (if falsy (reqHtmlContent req) then None else reqHtmlContent req),
                        imageCount = (case reqImageCount req of None \<Rightarrow> 0 | Some n \<Rightarrow> n),
                        date = nowLocale env, createdAt = now env\<rparr>]) \<and>
      status (snd (createData env req store)) = 200)"
  by (cases store) (auto simp add: createData_def Let_def split: option.splits)

lemma createData_invariant_step:
  assumes "storeInvariant store"
    and "falsy (reqHtmlContent req) \<or> reqFileType req = Some (js ''word'')"
  shows "storeInvariant (fst (createData env req store))"
proof -
  from createData_cases [of env req store]
  consider "fst (createData env req store) = store"
    | docs ft where "store = Store docs"
      "fileTypeOf (if falsy (reqFileType req) then js ''text'' else the (reqFileType req)) = Some ft"
      "fst (createData env req store) =
        Store (docs @ [\<lparr>ident = newId env, title = the (reqTitle req), content = the (reqContent req),
                        fileType = ft,
                        htmlContent = (if falsy (reqHtmlContent req) then None else reqHtmlContent req),
                        imageCount = (case reqImageCount req of None \<Rightarrow> 0 | Some n \<Rightarrow> n),
                        date = nowLocale env, createdAt = now env\<rparr>])"
    by (elim disjE exE conjE) simp_all
  then show ?thesis
  proof cases
    case 1
    with assms(1) show ?thesis by simp
  next
    case (2 docs ft)
    from assms(2) have "falsy (reqHtmlContent req) \<or> ft = WordFile"
    proof
      assume "falsy (reqHtmlContent req)"
      then show ?thesis ..
    next
      assume "reqFileType req = Some (js ''word'')"
      with 2(2) have "ft = WordFile"
        by (simp add: falsy_def fileTypeOf_def js_text_word split: if_splits)
      then show ?thesis ..
    qed
    with assms(1) 2(1,3) show ?thesis
      by (auto simp add: storeInvariant_def textHasNoHtml_def)
  qed
qed

lemma createData_stored:
  assumes "store = Store docs" and "status (snd (createData env req store)) = 200"
  shows "\<exists>d. fst (createData env req store) = Store (docs @ [d]) \<and>
     htmlContent d = (if falsy (reqHtmlContent req) then None else reqHtmlContent req) \<and>
     fileType d = (if reqFileType req = Some (js ''word'') then WordFile else TextFile)"
proof -
  from createData_cases [of env req store] assms(2)
  obtain docs' ft where c: "store = Store docs'"
      "fileTypeOf (if falsy (reqFileType req) then js ''text'' else the (reqFileType req)) = Some ft"
      "fst (createData env req store) =
        Store (docs' @ [\<lparr>ident = newId env, title = the (reqTitle req), content = the (reqContent req),
                        fileType = ft,
                        htmlContent = (if falsy (reqHtmlContent req) then None else reqHtmlContent req),
                        imageCount = (case reqImageCount req of None \<Rightarrow> 0 | Some n \<Rightarrow> n),
                        date = nowLocale env, createdAt = now env\<rparr>])"
    by (elim disjE exE conjE) simp_all
  from c(2) have "ft = (if reqFileType req = Some (js ''word'') then WordFile else TextFile)"
    by (cases "reqFileType req") (auto simp add: falsy_def fileTypeOf_def js_text_word split: if_splits)
  with c(1,3) assms(1) show ?thesis by simp
qed

lemma removeById_absent: "i \<notin> ident ` set docs \<Longrightarrow> removeById i docs = docs"
  by (induction docs) auto

subsection \<open>The handler of POST /api/ask\<close>

lemma trim_spaces: "trim (js ''   '') = []"
  by (simp add: trim_def js_def ch_def isWhiteSpace_def)

lemma status_caught: "status caught = 500"
  by (simp add: caught_def)

lemma questionOf_Some:
  "questionOf v = Some q \<Longrightarrow> q \<noteq> [] \<Longrightarrow> \<exists>s. v = JString s \<and> q = trim s"
  by (cases v) (auto simp add: questionOf_def trim_def split: if_splits)

lemma ask_success:
  assumes "status (ask canon geminiModel question store) = 200"
  shows "\<exists>generateContent s docs relevantData result.
     geminiModel = Some generateContent \<and> question = JString s \<and> trim s \<noteq> [] \<and> store = Store docs \<and>
     selectContext canon (trim s) docs = Inr relevantData \<and>
     generateContent (buildPrompt (trim s) relevantData) = Some result \<and>
     ask canon geminiModel question store = shapeResponse result relevantData"
proof -
  from assms obtain g where g: "geminiModel = Some g"
    by (cases geminiModel) (simp_all add: ask_def)
  from assms g obtain q where q: "questionOf question = Some q"
    by (cases "questionOf question") (simp_all add: ask_def status_caught)
  from assms g q have qne: "q \<noteq> []"
    by (auto simp add: ask_def)
  from questionOf_Some [OF q qne] obtain s where s: "question = JString s" "q = trim s"
    by blast
  from assms g q qne obtain docs where docs: "store = Store docs"
    by (cases store) (simp_all add: ask_def status_caught)
  from assms g q qne docs obtain relevantData where r: "selectContext canon q docs = Inr relevantData"
    by (cases "selectContext canon q docs") (simp_all add: ask_def status_caught)
  from assms g q qne docs r obtain result where res: "g (buildPrompt q relevantData) = Some result"
    by (cases "g (buildPrompt q relevantData)") (simp_all add: ask_def status_caught)
  from g q qne docs r res have "ask canon geminiModel question store = shapeResponse result relevantData"
    by (simp add: ask_def)
  with g s qne docs r res show ?thesis by blast
qed

lemma toReference_fields:
  "refId (toReference d) = ident d" "refTitle (toReference d) = title d"
  "refContent (toReference d) = content d" "refFileType (toReference d) = fileType d"
  "refHtmlContent (toReference d) = htmlContent d" "refImageCount (toReference d) = imageCount d"
  "refDate (toReference d) = date d"
  by (simp_all add: toReference_def)

lemma trim_lich: "trim lichQuestion = lichQuestion"
  by (simp add: trim_def lichQuestion_def js_def ch_def isWhiteSpace_def)

lemma lich_selected: "selectContext asciiCanon lichQuestion [meetingDoc] = Inr [meetingDoc]"
  by (simp add: selectContext_eq no_nul_examples lich_examples)



lemma lich_nonempty: "lichQuestion \<noteq> []"
  by (simp add: lichQuestion_def js_def)

lemma ask_lich:
  "ask asciiCanon (Some (\<lambda>prompt. Some (Text (js ''ok'')))) (JString lichQuestion) (Store [meetingDoc]) =
     shapeResponse (Text (js ''ok'')) [meetingDoc]"
  by (simp add: ask_def questionOf_def trim_lich lich_selected lich_nonempty)

lemma ask_answer:
  "body (ask canon geminiModel question store) = Answer a refs \<Longrightarrow>
   \<exists>result relevantData. ask canon geminiModel question store = shapeResponse result relevantData"
  by (auto simp add: ask_def caught_def split: option.splits if_splits store.splits sum.splits)

lemma shapeResponse_not_blank:
  "body (shapeResponse result relevantData) = Answer a refs \<Longrightarrow> \<not> blank a"
  by (cases result) (auto simp add: shapeResponse_body msgNoAnswer_not_blank split: if_splits)

section \<open>The claims\<close>










text \<open>
  Claim C4. Whatever the generated text, the answer of \<open>shapeResponse\<close> is neither empty
  nor white space only; it is the fixed message when the text is absent, empty or white
  space only, and the generated text otherwise. No answer that \<open>POST /api/ask\<close> sends
  is empty or white space only.
\<close>

theorem shapeResponse_answer_never_blank:
  "\<exists>answer. body (shapeResponse result relevantData) = Answer answer (map toReference relevantData) \<and>
     \<not> blank answer \<and>
     (result = NoText \<or> (\<exists>t. result = Text t \<and> blank t) \<longrightarrow> answer = msgNoAnswer) \<and>
     (\<forall>t. result = Text t \<and> \<not> blank t \<longrightarrow> answer = t) \<and>
     (\<forall>a refs. body (ask canon geminiModel question store) = Answer a refs \<longrightarrow> \<not> blank a)"
proof -
  have "\<forall>a refs. body (ask canon geminiModel question store) = Answer a refs \<longrightarrow> \<not> blank a"
    using ask_answer shapeResponse_not_blank by metis
  then show ?thesis
    by (cases result) (auto simp add: shapeResponse_body msgNoAnswer_not_blank)
qed

theorem shapeResponse_answer_never_blank_witness:
  "blank (js ''   '') \<and>
   body (shapeResponse (Text (js ''   '')) []) = Answer msgNoAnswer [] \<and>
   body (shapeResponse NoText []) = Answer msgNoAnswer [] \<and>
   body (shapeResponse (Text []) []) = Answer msgNoAnswer []"
proof -
  have b: "blank (js ''   '')" "blank []"
    by (simp_all add: blank_def js_def ch_def isWhiteSpace_def)
  have 1: "body (shapeResponse (Text (js ''   '')) []) = Answer msgNoAnswer []"
    using shapeResponse_answer_never_blank [of "Text (js ''   '')" "[]"] b by auto
  have 2: "body (shapeResponse NoText []) = Answer msgNoAnswer []"
    using shapeResponse_answer_never_blank [of NoText "[]"] by auto
  have 3: "body (shapeResponse (Text []) []) = Answer msgNoAnswer []"
    using shapeResponse_answer_never_blank [of "Text []" "[]"] b by auto
  from b 1 2 3 show ?thesis by simp
qed

text \<open>
  Claim C5. For every question, the prompt built from no documents has the fixed
  placeholder, which is not the empty string, as its context section, between the
  instructions and the question; the prompt is one string.
\<close>

theorem buildPrompt_empty_placeholder:
  "contextOf [] = [] \<and> txtNoData \<noteq> [] \<and>
   buildPrompt question [] =
     promptPersona @ blankLine @ promptRules @ blankLine @ promptInsufficient @ blankLine @
     promptData @ blankLine @ txtNoData @ blankLine @ promptQuestion @ question @ blankLine @
     promptCue"
  by (simp add: contextOf_def buildPrompt_def txtNoData_nonempty)

theorem buildPrompt_empty_placeholder_witness:
  "buildPrompt (js ''xyz'') [] =
     promptPersona @ blankLine @ promptRules @ blankLine @ promptInsufficient @ blankLine @
     promptData @ blankLine @ txtNoData @ blankLine @ promptQuestion @ js ''xyz'' @ blankLine @
     promptCue"
  using buildPrompt_empty_placeholder [of "js ''xyz''"] by (simp only: simp_thms)

text \<open>
  Claim C6, as stated, fails: a request with a non-empty \<open>htmlContent\<close> and the file type
  \<open>text\<close>, or no file type, is stored as a text document that carries the markup.
\<close>

theorem createData_breaks_invariant:
  "storeInvariant (Store []) \<and>
   fst (createData exampleDefaults htmlTextRequest (Store [])) =
     Store [\<lparr>ident = 3, title = js ''a'', content = js ''b'', fileType = TextFile,
             htmlContent = Some (js ''<p>x</p>''), imageCount = 0,
             date = js ''12:00:00 3/11/2026'', createdAt = 3000\<rparr>] \<and>
   \<not> storeInvariant (fst (createData exampleDefaults htmlTextRequest (Store []))) \<and>
   \<not> storeInvariant (fst (createData exampleDefaults htmlOnlyRequest (Store [])))"
  by (simp add: storeInvariant_def textHasNoHtml_def createData_def falsy_def fileTypeOf_def
        exampleDefaults_def htmlTextRequest_def htmlOnlyRequest_def js_text_word Let_def)

text \<open>
  Claim C6, amended. \<open>POST /api/data\<close> preserves the invariant that a text document has
  no \<open>htmlContent\<close> for every request that supplies no \<open>htmlContent\<close>, or an empty one,
  or supplies the file type \<open>word\<close>. The document it stores carries the \<open>htmlContent\<close>
  of the request (none when that is absent or empty) whatever the file type, which is
  \<open>word\<close> when the request says so and \<open>text\<close> otherwise.
\<close>

theorem createData_preserves_invariant:
  "(storeInvariant store \<and> (falsy (reqHtmlContent req) \<or> reqFileType req = Some (js ''word'')) \<longrightarrow>
      storeInvariant (fst (createData env req store))) \<and>
   (store = Store docs \<and> status (snd (createData env req store)) = 200 \<longrightarrow>
      (\<exists>d. fst (createData env req store) = Store (docs @ [d]) \<and>
           htmlContent d = (if falsy (reqHtmlContent req) then None else reqHtmlContent req) \<and>
           fileType d = (if reqFileType req = Some (js ''word'') then WordFile else TextFile)))"
  using createData_invariant_step [of store req env] createData_stored [of store docs env req]
  by blast

theorem createData_preserves_invariant_witness:
  "storeInvariant (Store [meetingDoc]) \<and> falsy (reqHtmlContent plainRequest) \<and>
   storeInvariant (fst (createData exampleDefaults plainRequest (Store [meetingDoc]))) \<and>
   status (snd (createData exampleDefaults htmlTextRequest (Store [meetingDoc]))) = 200 \<and>
   (\<exists>d. fst (createData exampleDefaults htmlTextRequest (Store [meetingDoc])) = Store ([meetingDoc] @ [d]) \<and>
        htmlContent d = Some (js ''<p>x</p>'') \<and> fileType d = TextFile)"
proof -
  have a: "storeInvariant (Store [meetingDoc])"
    by (simp add: storeInvariant_def textHasNoHtml_def meetingDoc_def)
  have b: "falsy (reqHtmlContent plainRequest)"
    by (simp add: falsy_def plainRequest_def)
  from createData_preserves_invariant [of "Store [meetingDoc]" plainRequest exampleDefaults] a b
  have c: "storeInvariant (fst (createData exampleDefaults plainRequest (Store [meetingDoc])))"
    by blast
  have d: "status (snd (createData exampleDefaults htmlTextRequest (Store [meetingDoc]))) = 200"
    by (simp add: createData_def falsy_def fileTypeOf_def htmlTextRequest_def js_text_word Let_def)
  have e: "\<not> falsy (reqHtmlContent htmlTextRequest)" "reqHtmlContent htmlTextRequest = Some (js ''<p>x</p>'')"
    "reqFileType htmlTextRequest \<noteq> Some (js ''word'')"
    by (simp_all add: falsy_def htmlTextRequest_def js_text_word)
  from createData_preserves_invariant [of "Store [meetingDoc]" htmlTextRequest exampleDefaults "[meetingDoc]"] d
  have "\<exists>d. fst (createData exampleDefaults htmlTextRequest (Store [meetingDoc])) = Store ([meetingDoc] @ [d]) \<and>
        htmlContent d = (if falsy (reqHtmlContent htmlTextRequest) then None else reqHtmlContent htmlTextRequest) \<and>
        fileType d = (if reqFileType htmlTextRequest = Some (js ''word'') then WordFile else TextFile)"
    by blast
  with e have "\<exists>d. fst (createData exampleDefaults htmlTextRequest (Store [meetingDoc])) = Store ([meetingDoc] @ [d]) \<and>
        htmlContent d = Some (js ''<p>x</p>'') \<and> fileType d = TextFile"
    by simp
  with a b c d show ?thesis by (intro conjI)
qed

text \<open>
  Claim C7. For every non-empty list of documents there is one block per document; the
  block at position \<open>i\<close> is the numbered block of number \<open>i + 1\<close> with the document's
  title, display date and content, followed by the line on embedded images exactly when
  the document's file type is \<open>word\<close> and its image count is above zero; the context
  is the blocks joined by blank lines and stands in the prompt.
\<close>

theorem buildPrompt_numbered_blocks:
  assumes "relevantData \<noteq> []"
  shows "length (mapIndexed itemText 0 relevantData) = length relevantData \<and>
     (\<forall>i<length relevantData.
        mapIndexed itemText 0 relevantData ! i =
          numberedBlock (i + 1) (relevantData ! i) @
          (if fileType (relevantData ! i) = WordFile \<and> imageCount (relevantData ! i) > 0
           then imageAnnotation (relevantData ! i) else [])) \<and>
     contextOf relevantData = join blankLine (mapIndexed itemText 0 relevantData) \<and>
     contextOf relevantData \<noteq> [] \<and>
     buildPrompt question relevantData =
       promptPersona @ blankLine @ promptRules @ blankLine @ promptInsufficient @ blankLine @
       promptData @ blankLine @ contextOf relevantData @ blankLine @ promptQuestion @ question @
       blankLine @ promptCue"
proof (intro conjI allI impI)
  show "length (mapIndexed itemText 0 relevantData) = length relevantData"
    by (rule length_mapIndexed)
  show "contextOf relevantData = join blankLine (mapIndexed itemText 0 relevantData)"
    by (simp only: contextOf_def)
  show ne: "contextOf relevantData \<noteq> []"
    using assms by (rule contextOf_nonempty)
  show "buildPrompt question relevantData =
       promptPersona @ blankLine @ promptRules @ blankLine @ promptInsufficient @ blankLine @
       promptData @ blankLine @ contextOf relevantData @ blankLine @ promptQuestion @ question @
       blankLine @ promptCue"
    using ne by (simp add: buildPrompt_def Let_def)
next
  fix i assume "i < length relevantData"
  then show "mapIndexed itemText 0 relevantData ! i =
          numberedBlock (i + 1) (relevantData ! i) @
          (if fileType (relevantData ! i) = WordFile \<and> imageCount (relevantData ! i) > 0
           then imageAnnotation (relevantData ! i) else [])"
    by (simp only: nth_mapIndexed itemText_block add_0)
qed

theorem buildPrompt_numbered_blocks_witness:
  "[meetingDoc, reportDoc] \<noteq> [] \<and>
   mapIndexed itemText 0 [meetingDoc, reportDoc] ! 0 =
     txtItem @ js ''1: '' @ title meetingDoc @ txtSaved @ date meetingDoc @ txtContent @ content meetingDoc \<and>
   mapIndexed itemText 0 [meetingDoc, reportDoc] ! 1 =
     txtItem @ js ''2: '' @ title reportDoc @ txtSaved @ date reportDoc @ txtContent @ content reportDoc @
     txtWordOpen @ js ''3'' @ txtWordClose"
proof -
  have ne: "[meetingDoc, reportDoc] \<noteq> []" by simp
  have i0: "0 < length [meetingDoc, reportDoc]" and i1: "1 < length [meetingDoc, reportDoc]"
    by simp_all
  from buildPrompt_numbered_blocks [OF ne, of "[]"]
  have all: "\<forall>i<length [meetingDoc, reportDoc].
        mapIndexed itemText 0 [meetingDoc, reportDoc] ! i =
          numberedBlock (i + 1) ([meetingDoc, reportDoc] ! i) @
          (if fileType ([meetingDoc, reportDoc] ! i) = WordFile \<and> imageCount ([meetingDoc, reportDoc] ! i) > 0
           then imageAnnotation ([meetingDoc, reportDoc] ! i) else [])"
    by (elim conjE)
  from all i0 have b0: "mapIndexed itemText 0 [meetingDoc, reportDoc] ! 0 =
     txtItem @ js ''1: '' @ title meetingDoc @ txtSaved @ date meetingDoc @ txtContent @ content meetingDoc"
    unfolding block_meeting [symmetric] by blast
  from all i1 have b1: "mapIndexed itemText 0 [meetingDoc, reportDoc] ! 1 =
     txtItem @ js ''2: '' @ title reportDoc @ txtSaved @ date reportDoc @ txtContent @ content reportDoc @
     txtWordOpen @ js ''3'' @ txtWordClose"
    unfolding block_report [symmetric] by blast
  from ne b0 b1 show ?thesis by (intro conjI)
qed

text \<open>
  Claim C8. When \<open>POST /api/ask\<close> succeeds, the references of the response are the
  documents \<open>selectContext\<close> returned for the trimmed question, in the same order and
  number, each projected to identifier, title, content, fileType, htmlContent, imageCount
  and date; a reference has no other field.
\<close>

theorem ask_references_are_selected_context:
  assumes "status (ask canon geminiModel question store) = 200"
  shows "\<exists>s docs relevantData answer references.
     question = JString s \<and> store = Store docs \<and>
     selectContext canon (trim s) docs = Inr relevantData \<and>
     body (ask canon geminiModel question store) = Answer answer references \<and>
     references = map toReference relevantData \<and>
     length references = length relevantData \<and>
     (\<forall>i<length relevantData.
        refId (references ! i) = ident (relevantData ! i) \<and>
        refTitle (references ! i) = title (relevantData ! i) \<and>
        refContent (references ! i) = content (relevantData ! i) \<and>
        refFileType (references ! i) = fileType (relevantData ! i) \<and>
        refHtmlContent (references ! i) = htmlContent (relevantData ! i) \<and>
        refImageCount (references ! i) = imageCount (relevantData ! i) \<and>
        refDate (references ! i) = date (relevantData ! i))"
proof -
  from ask_success [OF assms] obtain generateContent s docs relevantData result where
    a: "question = JString s" "store = Store docs"
       "selectContext canon (trim s) docs = Inr relevantData"
       "ask canon geminiModel question store = shapeResponse result relevantData"
    by blast
  from shapeResponse_body [of result relevantData] a(4) obtain answer where
    b: "body (ask canon geminiModel question store) = Answer answer (map toReference relevantData)"
    by simp
  have c: "\<forall>i<length relevantData.
        refId (map toReference relevantData ! i) = ident (relevantData ! i) \<and>
        refTitle (map toReference relevantData ! i) = title (relevantData ! i) \<and>
        refContent (map toReference relevantData ! i) = content (relevantData ! i) \<and>
        refFileType (map toReference relevantData ! i) = fileType (relevantData ! i) \<and>
        refHtmlContent (map toReference relevantData ! i) = htmlContent (relevantData ! i) \<and>
        refImageCount (map toReference relevantData ! i) = imageCount (relevantData ! i) \<and>
        refDate (map toReference relevantData ! i) = date (relevantData ! i)"
    by (simp add: toReference_fields)
  have d: "length (map toReference relevantData) = length relevantData" by simp
  from a(1,2,3) b c d show ?thesis by blast
qed

theorem ask_references_are_selected_context_witness:
  "status (ask asciiCanon (Some (\<lambda>prompt. Some (Text (js ''ok'')))) (JString lichQuestion) (Store [meetingDoc])) = 200 \<and>
   body (ask asciiCanon (Some (\<lambda>prompt. Some (Text (js ''ok'')))) (JString lichQuestion) (Store [meetingDoc])) =
     Answer (js ''ok'') [toReference meetingDoc] \<and>
   (\<exists>s docs relevantData answer references.
     JString lichQuestion = JString s \<and> Store [meetingDoc] = Store docs \<and>
     selectContext asciiCanon (trim s) docs = Inr relevantData \<and>
     body (ask asciiCanon (Some (\<lambda>prompt. Some (Text (js ''ok'')))) (JString lichQuestion) (Store [meetingDoc])) =
       Answer answer references \<and>
     references = map toReference relevantData \<and> length references = length relevantData)"
proof -
  let ?r = "ask asciiCanon (Some (\<lambda>prompt. Some (Text (js ''ok'')))) (JString lichQuestion) (Store [meetingDoc])"
  have ok: "\<not> blank (js ''ok'')"
    by (simp add: blank_def js_def ch_def isWhiteSpace_def)
  have st: "status ?r = 200"
    by (simp only: ask_lich shapeResponse_status)
  have bd: "body ?r = Answer (js ''ok'') [toReference meetingDoc]"
    using ok by (simp add: ask_lich shapeResponse_body)
  from ask_references_are_selected_context [OF st]
  have "\<exists>s docs relevantData answer references.
     JString lichQuestion = JString s \<and> Store [meetingDoc] = Store docs \<and>
     selectContext asciiCanon (trim s) docs = Inr relevantData \<and>
     body ?r = Answer answer references \<and>
     references = map toReference relevantData \<and> length references = length relevantData"
    by blast
  with st bd show ?thesis by (intro conjI)
qed

text \<open>
  Claim C9. For every identifier, \<open>DELETE /api/data/:id\<close> answers with the success message
  whether or not a document of that identifier is in the store; with none, the store is
  left as it is; a second delete of the same identifier succeeds as well.
\<close>

theorem deleteData_success_whether_present:
  "snd (deleteData (ObjectId i) (Store docs)) =
     \<lparr>status = 200, body = Message (js ''Deleted successfully'')\<rparr> \<and>
   (i \<notin> ident ` set docs \<longrightarrow> fst (deleteData (ObjectId i) (Store docs)) = Store docs) \<and>
   snd (deleteData (ObjectId i) (fst (deleteData (ObjectId i) (Store docs)))) =
     \<lparr>status = 200, body = Message (js ''Deleted successfully'')\<rparr>"
  by (simp add: deleteData_def removeById_absent)

theorem deleteData_success_whether_present_witness:
  "7 \<notin> ident ` set [meetingDoc] \<and>
   deleteData (ObjectId 7) (Store [meetingDoc]) =
     (Store [meetingDoc], \<lparr>status = 200, body = Message (js ''Deleted successfully'')\<rparr>) \<and>
   deleteData (ObjectId 1) (Store [meetingDoc]) =
     (Store [], \<lparr>status = 200, body = Message (js ''Deleted successfully'')\<rparr>)"
proof -
  have a: "7 \<notin> ident ` set [meetingDoc]" by (simp add: meetingDoc_def)
  from deleteData_success_whether_present [of 7 "[meetingDoc]"] a
  have "deleteData (ObjectId 7) (Store [meetingDoc]) =
     (Store [meetingDoc], \<lparr>status = 200, body = Message (js ''Deleted successfully'')\<rparr>)"
    by (simp add: prod_eq_iff)
  moreover from deleteData_success_whether_present [of 1 "[meetingDoc]"]
  have "deleteData (ObjectId 1) (Store [meetingDoc]) =
     (Store [], \<lparr>status = 200, body = Message (js ''Deleted successfully'')\<rparr>)"
    by (simp add: prod_eq_iff) (simp add: deleteData_def meetingDoc_def)
  ultimately show ?thesis using a by (intro conjI)
qed

text \<open>
  Claim C10. In the handler of \<open>POST /api/ask\<close>, and in its earlier revision, the check of
  the provider comes first: with no provider configured the response is the configuration
  error of status 500 for every request, also one whose question is empty or white space
  only; a response of status 400 implies a configured provider, and with one an empty
  question is answered with status 400.
\<close>

theorem ask_configuration_checked_first:
  "ask canon None question store = \<lparr>status = 500, body = Error msgMissingConfig\<rparr> \<and>
   (status (ask canon geminiModel question store) = 400 \<longrightarrow> geminiModel \<noteq> None) \<and>
   (geminiModel \<noteq> None \<and> questionOf question = Some [] \<longrightarrow>
      ask canon geminiModel question store = \<lparr>status = 400, body = Error msgEnterQuestion\<rparr>) \<and>
   askLegacy canon None question store =
     \<lparr>legacyStatus = 500, legacyBody = LegacyError legacyMissingConfig\<rparr> \<and>
   (legacyStatus (askLegacy canon geminiModel question store) = 400 \<longrightarrow> geminiModel \<noteq> None) \<and>
   (geminiModel \<noteq> None \<and> questionOf question = Some [] \<longrightarrow>
      askLegacy canon geminiModel question store =
        \<lparr>legacyStatus = 400, legacyBody = LegacyError legacyEnterQuestion\<rparr>)"
  by (cases geminiModel) (simp_all add: ask_def askLegacy_def)

theorem ask_configuration_checked_first_witness:
  "ask asciiCanon None (JString (js ''   '')) (Store []) = \<lparr>status = 500, body = Error msgMissingConfig\<rparr> \<and>
   ask asciiCanon None JUndefined Unavailable = \<lparr>status = 500, body = Error msgMissingConfig\<rparr> \<and>
   ask asciiCanon (Some (\<lambda>prompt. Some NoText)) (JString (js ''   '')) (Store []) =
     \<lparr>status = 400, body = Error msgEnterQuestion\<rparr> \<and>
   askLegacy asciiCanon None (JString (js ''   '')) (Store []) =
     \<lparr>legacyStatus = 500, legacyBody = LegacyError legacyMissingConfig\<rparr> \<and>
   askLegacy asciiCanon (Some (\<lambda>prompt. Some NoText)) (JString (js ''   '')) (Store []) =
     \<lparr>legacyStatus = 400, legacyBody = LegacyError legacyEnterQuestion\<rparr>"
proof -
  have q: "questionOf (JString (js ''   '')) = Some []"
    by (simp add: questionOf_def trim_spaces js_text_word)
  note t = ask_configuration_checked_first
    [of asciiCanon "JString (js ''   '')" "Store []" "Some (\<lambda>prompt. Some NoText)"]
  from t q
  have "ask asciiCanon None (JString (js ''   '')) (Store []) = \<lparr>status = 500, body = Error msgMissingConfig\<rparr>"
    and "ask asciiCanon (Some (\<lambda>prompt. Some NoText)) (JString (js ''   '')) (Store []) =
     \<lparr>status = 400, body = Error msgEnterQuestion\<rparr>"
    and "askLegacy asciiCanon None (JString (js ''   '')) (Store []) =
     \<lparr>legacyStatus = 500, legacyBody = LegacyError legacyMissingConfig\<rparr>"
    and "askLegacy asciiCanon (Some (\<lambda>prompt. Some NoText)) (JString (js ''   '')) (Store []) =
     \<lparr>legacyStatus = 400, legacyBody = LegacyError legacyEnterQuestion\<rparr>"
    by simp_all
  moreover from ask_configuration_checked_first [of asciiCanon JUndefined Unavailable None]
  have "ask asciiCanon None JUndefined Unavailable = \<lparr>status = 500, body = Error msgMissingConfig\<rparr>"
    by simp
  ultimately show ?thesis by (intro conjI)
qed

end
